theory Spec2Isabelle
  imports Main
begin

section \<open>A one-shot promise/future pair (fut.cpp)\<close>

text \<open>
  The source defines three class templates: \<open>SharedState<T>\<close>, \<open>MyFuture<T>\<close> and
  \<open>MyPromise<T>\<close>. Every member function of \<open>SharedState\<close> holds the mutex for its whole
  body, so each call is one atomic step on the three data fields. The model gives first
  what each call does to the data (the sequential semantics of these steps), then the
  threads suspended on the condition variable.

  Isabelle does not accept names that end in an underscore, so the data members are
  renamed: \<open>value_\<close>, \<open>exception_ptr_\<close>, \<open>ready_\<close> of \<open>SharedState\<close> are \<open>ss_value\<close>,
  \<open>ss_exception_ptr\<close>, \<open>ss_ready\<close>; \<open>state_\<close>, \<open>future_retrieved_\<close> of \<open>MyPromise\<close> are
  \<open>pr_state\<close>, \<open>pr_future_retrieved\<close>; \<open>state_\<close> of \<open>MyFuture\<close> is \<open>fu_state\<close>.
  Member functions carry their class as a prefix.
\<close>

subsection \<open>Exceptions\<close>

text \<open>
  Every exception the source throws itself is a \<open>std::runtime_error\<close> with a fixed message;
  a producer may store any other exception object, here a payload of type \<open>'x\<close>.
  A \<open>std::exception_ptr\<close> is a nullable handle: \<open>None\<close> is the null pointer.
\<close>

datatype 'x exn = Runtime_error string | User_exception 'x

type_synonym 'x exception_ptr = "'x exn option"

subsection \<open>SharedState\<close>

record ('a, 'x) SharedState =
  ss_value :: "'a option"
  ss_exception_ptr :: "'x exception_ptr"
  ss_ready :: bool

text \<open>The defaulted constructor: empty optional, null exception pointer, \<open>ready_{false}\<close>.\<close>

definition SharedState_new :: "('a, 'x) SharedState" where
  "SharedState_new = \<lparr>ss_value = None, ss_exception_ptr = None, ss_ready = False\<rparr>"

text \<open>
  A member function that may throw returns the exception as \<open>Inl\<close>, together with the state
  it leaves behind. Both writers throw before they assign anything. Their last statement,
  \<open>cv_.notify_one()\<close>, does not touch the data fields; it is added in the subsection on
  the condition variable below.
\<close>

definition SharedState_set_value ::
  "'a \<Rightarrow> ('a, 'x) SharedState \<Rightarrow> ('x exn + unit) \<times> ('a, 'x) SharedState" where
  "SharedState_set_value val s =
     (if ss_ready s then (Inl (Runtime_error ''Promise already satisfied''), s)
      else (Inr (), s\<lparr>ss_value := Some val, ss_ready := True\<rparr>))"

definition SharedState_set_exception ::
  "'x exception_ptr \<Rightarrow> ('a, 'x) SharedState \<Rightarrow> ('x exn + unit) \<times> ('a, 'x) SharedState" where
  "SharedState_set_exception p s =
     (if ss_ready s then (Inl (Runtime_error ''Promise already satisfied''), s)
      else (Inr (), s\<lparr>ss_exception_ptr := p, ss_ready := True\<rparr>))"

text \<open>
  \<open>cv_.wait(lock, [this] { return ready_; })\<close> returns only in a state where \<open>ready_\<close> holds.
  A call that finds the state not ready does not return in that state: its result is
  \<open>None\<close>. Otherwise the result is \<open>Some\<close> of the thrown exception or the returned copy.
\<close>

definition SharedState_get_value ::
  "('a, 'x) SharedState \<Rightarrow> ('x exn + 'a) option \<times> ('a, 'x) SharedState" where
  "SharedState_get_value s =
     (if \<not> ss_ready s then (None, s)
      else (case ss_exception_ptr s of
              Some e \<Rightarrow> (Some (Inl e), s)
            | None \<Rightarrow>
               (case ss_value s of
                  Some v \<Rightarrow> (Some (Inr v), s)
                | None \<Rightarrow>
                    (Some (Inl (Runtime_error
                       ''Internal error: shared state ready but no value or exception'')), s))))"

definition SharedState_is_ready :: "('a, 'x) SharedState \<Rightarrow> bool" where
  "SharedState_is_ready s = ss_ready s"

definition SharedState_wait ::
  "('a, 'x) SharedState \<Rightarrow> unit option \<times> ('a, 'x) SharedState" where
  "SharedState_wait s = (if \<not> ss_ready s then (None, s) else (Some (), s))"

subsection \<open>The heap of shared states\<close>

text \<open>
  \<open>std::shared_ptr<SharedState<T>>\<close> is \<open>None\<close> (null) or the address of a live object:
  shared ownership keeps the object alive as long as a handle points to it, so every
  address is readable. \<open>std::make_shared\<close> takes the next unused address.
\<close>

type_synonym addr = nat

type_synonym shared_ptr = "addr option"

record ('a, 'x) heap =
  cells :: "addr \<Rightarrow> ('a, 'x) SharedState"
  next_addr :: addr

definition make_shared :: "('a, 'x) heap \<Rightarrow> addr \<times> ('a, 'x) heap" where
  "make_shared h =
     (next_addr h,
      h\<lparr>cells := (cells h)(next_addr h := SharedState_new), next_addr := Suc (next_addr h)\<rparr>)"

text \<open>\<open>state_->f(...)\<close>: run a member function on the object at an address.\<close>

definition call_at ::
  "addr \<Rightarrow> (('a, 'x) SharedState \<Rightarrow> 'r \<times> ('a, 'x) SharedState) \<Rightarrow> ('a, 'x) heap
     \<Rightarrow> 'r \<times> ('a, 'x) heap" where
  "call_at a f h = (case f (cells h a) of (r, s') \<Rightarrow> (r, h\<lparr>cells := (cells h)(a := s')\<rparr>))"

subsection \<open>MyFuture\<close>

record MyFuture =
  fu_state :: shared_ptr

definition MyFuture_new :: "shared_ptr \<Rightarrow> MyFuture" where
  "MyFuture_new state = \<lparr>fu_state = state\<rparr>"

definition MyFuture_get ::
  "MyFuture \<Rightarrow> ('a, 'x) heap \<Rightarrow> ('x exn + 'a) option \<times> ('a, 'x) heap" where
  "MyFuture_get f h =
     (case fu_state f of
        None \<Rightarrow> (Some (Inl (Runtime_error ''Future has no associated state'')), h)
      | Some a \<Rightarrow> call_at a SharedState_get_value h)"

definition MyFuture_is_ready :: "MyFuture \<Rightarrow> ('a, 'x) heap \<Rightarrow> bool" where
  "MyFuture_is_ready f h =
     (case fu_state f of
        None \<Rightarrow> False
      | Some a \<Rightarrow> SharedState_is_ready (cells h a))"

definition MyFuture_wait ::
  "MyFuture \<Rightarrow> ('a, 'x) heap \<Rightarrow> ('x exn + unit) option \<times> ('a, 'x) heap" where
  "MyFuture_wait f h =
     (case fu_state f of
        None \<Rightarrow> (Some (Inl (Runtime_error ''Future has no associated state'')), h)
      | Some a \<Rightarrow> (case call_at a SharedState_wait h of (r, h') \<Rightarrow> (map_option Inr r, h')))"

definition MyFuture_valid :: "MyFuture \<Rightarrow> bool" where
  "MyFuture_valid f = (fu_state f \<noteq> None)"

subsection \<open>MyPromise\<close>

record MyPromise =
  pr_state :: shared_ptr
  pr_future_retrieved :: bool

definition MyPromise_new :: "('a, 'x) heap \<Rightarrow> MyPromise \<times> ('a, 'x) heap" where
  "MyPromise_new h =
     (case make_shared h of
        (a, h') \<Rightarrow> (\<lparr>pr_state = Some a, pr_future_retrieved = False\<rparr>, h'))"

text \<open>
  The move constructor builds a new object from \<open>other\<close>; moving a \<open>shared_ptr\<close> leaves the
  source null, and the source's flag is then set. The result is the new object and what is
  left of \<open>other\<close>.
\<close>

definition MyPromise_move :: "MyPromise \<Rightarrow> MyPromise \<times> MyPromise" where
  "MyPromise_move other =
     (\<lparr>pr_state = pr_state other, pr_future_retrieved = pr_future_retrieved other\<rparr>,
      other\<lparr>pr_state := None, pr_future_retrieved := True\<rparr>)"

text \<open>
  Move assignment compares the addresses of the two promise objects, so it is modelled on a
  store of promise objects indexed by their identity. The four updates follow the
  statements of the source in order.
\<close>

type_synonym promises = "nat \<Rightarrow> MyPromise"

definition MyPromise_move_assign :: "nat \<Rightarrow> nat \<Rightarrow> promises \<Rightarrow> promises" where
  "MyPromise_move_assign this other ps =
     (if this \<noteq> other then
        (let ps1 = ps(this := (ps this)\<lparr>pr_state := pr_state (ps other)\<rparr>);
             ps2 = ps1(other := (ps1 other)\<lparr>pr_state := None\<rparr>);
             ps3 = ps2(this := (ps2 this)\<lparr>pr_future_retrieved := pr_future_retrieved (ps2 other)\<rparr>);
             ps4 = ps3(other := (ps3 other)\<lparr>pr_future_retrieved := True\<rparr>)
         in ps4)
      else ps)"

definition MyPromise_get_future :: "MyPromise \<Rightarrow> ('x exn + MyFuture) \<times> MyPromise" where
  "MyPromise_get_future p =
     (if pr_state p = None \<or> pr_future_retrieved p
      then (Inl (Runtime_error ''Future already retrieved or no state''), p)
      else (Inr (MyFuture_new (pr_state p)), p\<lparr>pr_future_retrieved := True\<rparr>))"

text \<open>Both overloads of \<open>set_value\<close> (const reference and rvalue) have the same body.\<close>

definition MyPromise_set_value ::
  "'a \<Rightarrow> MyPromise \<Rightarrow> ('a, 'x) heap \<Rightarrow> ('x exn + unit) \<times> ('a, 'x) heap" where
  "MyPromise_set_value v p h =
     (case pr_state p of
        None \<Rightarrow> (Inl (Runtime_error ''Promise has no state''), h)
      | Some a \<Rightarrow> call_at a (SharedState_set_value v) h)"

definition MyPromise_set_exception ::
  "'x exception_ptr \<Rightarrow> MyPromise \<Rightarrow> ('a, 'x) heap \<Rightarrow> ('x exn + unit) \<times> ('a, 'x) heap" where
  "MyPromise_set_exception e p h =
     (case pr_state p of
        None \<Rightarrow> (Inl (Runtime_error ''Promise has no state''), h)
      | Some a \<Rightarrow> call_at a (SharedState_set_exception e) h)"

text \<open>
  The destructor: \<open>catch (...) {}\<close> drops whatever \<open>set_exception\<close> throws, so only the heap
  it leaves is kept.
\<close>

definition MyPromise_destroy :: "MyPromise \<Rightarrow> ('a, 'x) heap \<Rightarrow> ('a, 'x) heap" where
  "MyPromise_destroy p h =
     (case pr_state p of
        None \<Rightarrow> h
      | Some a \<Rightarrow>
          (if \<not> SharedState_is_ready (cells h a) \<and> pr_future_retrieved p
           then snd (call_at a (SharedState_set_exception (Some (Runtime_error ''Broken promise''))) h)
           else h))"

subsection \<open>Sequences of calls on one shared state\<close>

text \<open>The two writers as one operation, to speak about any combination of two writes.\<close>

datatype ('a, 'x) write_op = Set_value 'a | Set_exception "'x exception_ptr"

fun do_write ::
  "('a, 'x) write_op \<Rightarrow> ('a, 'x) SharedState \<Rightarrow> ('x exn + unit) \<times> ('a, 'x) SharedState" where
  "do_write (Set_value v) s = SharedState_set_value v s"
| "do_write (Set_exception p) s = SharedState_set_exception p s"

text \<open>
  The states a \<open>SharedState\<close> object can be in: it starts as constructed, and only the two
  writers assign to its fields.
\<close>

inductive reachable :: "('a, 'x) SharedState \<Rightarrow> bool" where
  reachable_new: "reachable SharedState_new"
| reachable_write: "reachable s \<Longrightarrow> reachable (snd (do_write w s))"

text \<open>
  The invariant of section 3 of the specification, in its words: ready if and only if
  exactly one of the value slot and the failure is populated.
\<close>

definition spec_ready_invariant :: "('a, 'x) SharedState \<Rightarrow> bool" where
  "spec_ready_invariant s =
     (ss_ready s = ((ss_value s \<noteq> None) \<noteq> (ss_exception_ptr s \<noteq> None)))"

subsection \<open>An initial heap\<close>

text \<open>A heap on which nothing has been allocated yet, for running the code on examples.\<close>

definition empty_heap :: "('a, 'x) heap" where
  "empty_heap = \<lparr>cells = (\<lambda>_. SharedState_new), next_addr = 0\<rparr>"

subsection \<open>The condition variable\<close>

text \<open>
  The functions above give what one call does to the data fields. A call of \<open>get_value\<close> or
  \<open>wait\<close> that finds \<open>ready_\<close> false does more than not return: the calling thread is
  suspended inside \<open>cv_.wait\<close>, and it tests \<open>ready_\<close> again only after it has been
  unblocked. A writer that succeeds ends with \<open>cv_.notify_one()\<close>, which unblocks one of
  the threads suspended at that moment, if there is any; a writer that throws does so
  before it reaches \<open>notify_one\<close>.

  For every shared state the world keeps, next to the heap, the threads suspended in
  \<open>cv_.wait\<close> (\<open>cv_blocked\<close>) and the threads that were unblocked and have not yet taken
  the mutex again to repeat the test (\<open>cv_unblocked\<close>). Threads are numbered. Which
  suspended thread \<open>notify_one\<close> unblocks is not determined by the source; the choice is
  the parameter \<open>k\<close>. A suspended thread may also be unblocked without a notification
  (\<open>spurious_wakeup\<close>); nothing makes this happen.
\<close>

record ('a, 'x) world =
  store :: "('a, 'x) heap"
  cv_blocked :: "addr \<Rightarrow> nat list"
  cv_unblocked :: "addr \<Rightarrow> nat list"

definition notify_one :: "nat \<Rightarrow> addr \<Rightarrow> ('a, 'x) world \<Rightarrow> ('a, 'x) world" where
  "notify_one k a w =
     (if cv_blocked w a = [] then w
      else (let ts = cv_blocked w a; i = k mod length ts
            in w\<lparr>cv_blocked := (cv_blocked w)(a := take i ts @ drop (Suc i) ts),
                 cv_unblocked := (cv_unblocked w)(a := cv_unblocked w a @ [ts ! i])\<rparr>))"

definition spurious_wakeup :: "nat \<Rightarrow> addr \<Rightarrow> ('a, 'x) world \<Rightarrow> ('a, 'x) world" where
  "spurious_wakeup t a w =
     (if t \<in> set (cv_blocked w a)
      then w\<lparr>cv_blocked := (cv_blocked w)(a := remove1 t (cv_blocked w a)),
             cv_unblocked := (cv_unblocked w)(a := cv_unblocked w a @ [t])\<rparr>
      else w)"

text \<open>The two writers with their last statement, \<open>cv_.notify_one()\<close>.\<close>

definition SharedState_set_value_cv ::
  "nat \<Rightarrow> 'a \<Rightarrow> addr \<Rightarrow> ('a, 'x) world \<Rightarrow> ('x exn + unit) \<times> ('a, 'x) world" where
  "SharedState_set_value_cv k val a w =
     (case call_at a (SharedState_set_value val) (store w) of
        (Inl e, h') \<Rightarrow> (Inl e, w\<lparr>store := h'\<rparr>)
      | (Inr u, h') \<Rightarrow> (Inr u, notify_one k a (w\<lparr>store := h'\<rparr>)))"

definition SharedState_set_exception_cv ::
  "nat \<Rightarrow> 'x exception_ptr \<Rightarrow> addr \<Rightarrow> ('a, 'x) world \<Rightarrow> ('x exn + unit) \<times> ('a, 'x) world" where
  "SharedState_set_exception_cv k p a w =
     (case call_at a (SharedState_set_exception p) (store w) of
        (Inl e, h') \<Rightarrow> (Inl e, w\<lparr>store := h'\<rparr>)
      | (Inr u, h') \<Rightarrow> (Inr u, notify_one k a (w\<lparr>store := h'\<rparr>)))"

text \<open>
  \<open>get_value\<close> called by thread \<open>t\<close>: with \<open>ready_\<close> true the call completes as
  \<open>SharedState_get_value\<close> says; otherwise \<open>t\<close> is suspended. \<open>cv_.wait(lock, pred)\<close> is
  \<open>while (!pred()) wait(lock)\<close>, so an unblocked thread repeats the same test
  (\<open>SharedState_get_value_resume\<close>); a thread that has not been unblocked takes no step.
\<close>

definition SharedState_get_value_cv ::
  "nat \<Rightarrow> addr \<Rightarrow> ('a, 'x) world \<Rightarrow> ('x exn + 'a) option \<times> ('a, 'x) world" where
  "SharedState_get_value_cv t a w =
     (case call_at a SharedState_get_value (store w) of
        (Some r, h') \<Rightarrow> (Some r, w\<lparr>store := h'\<rparr>)
      | (None, h') \<Rightarrow>
          (None, w\<lparr>store := h', cv_blocked := (cv_blocked w)(a := cv_blocked w a @ [t])\<rparr>))"

definition SharedState_get_value_resume ::
  "nat \<Rightarrow> addr \<Rightarrow> ('a, 'x) world \<Rightarrow> ('x exn + 'a) option \<times> ('a, 'x) world" where
  "SharedState_get_value_resume t a w =
     (if t \<in> set (cv_unblocked w a)
      then SharedState_get_value_cv t a
             (w\<lparr>cv_unblocked := (cv_unblocked w)(a := remove1 t (cv_unblocked w a))\<rparr>)
      else (None, w))"

definition MyFuture_get_cv ::
  "nat \<Rightarrow> MyFuture \<Rightarrow> ('a, 'x) world \<Rightarrow> ('x exn + 'a) option \<times> ('a, 'x) world" where
  "MyFuture_get_cv t f w =
     (case fu_state f of
        None \<Rightarrow> (Some (Inl (Runtime_error ''Future has no associated state'')), w)
      | Some a \<Rightarrow> SharedState_get_value_cv t a w)"

text \<open>The destructor, its \<open>set_exception\<close> now with the notification.\<close>

definition MyPromise_destroy_cv ::
  "nat \<Rightarrow> MyPromise \<Rightarrow> ('a, 'x) world \<Rightarrow> ('a, 'x) world" where
  "MyPromise_destroy_cv k p w =
     (case pr_state p of
        None \<Rightarrow> w
      | Some a \<Rightarrow>
          (if \<not> SharedState_is_ready (cells (store w) a) \<and> pr_future_retrieved p
           then snd (SharedState_set_exception_cv k
                       (Some (Runtime_error ''Broken promise'')) a w)
           else w))"

text \<open>
  The world after \<open>MyPromise<T> prom; MyFuture<T> fut = prom.get_future();\<close> on an empty
  heap: one shared state at address 0, no thread suspended.
\<close>

definition one_promise_world :: "('a, 'x) world" where
  "one_promise_world =
     \<lparr>store = snd (MyPromise_new empty_heap), cv_blocked = (\<lambda>_. []), cv_unblocked = (\<lambda>_. [])\<rparr>"

section \<open>Properties\<close>

subsection \<open>Auxiliary facts\<close>

text \<open>A shared state is as constructed, or holds the result of its first write.\<close>


lemma reachable_cases:
  "reachable s \<Longrightarrow>
     s = SharedState_new \<or>
     (\<exists>v. s = \<lparr>ss_value = Some v, ss_exception_ptr = None, ss_ready = True\<rparr>) \<or>
     (\<exists>p. s = \<lparr>ss_value = None, ss_exception_ptr = p, ss_ready = True\<rparr>)"
proof (induction rule: reachable.induct)
  case reachable_new
  then show ?case by simp
next
  case (reachable_write s w)
  then show ?case
    by (cases w)
       (auto simp: SharedState_set_value_def SharedState_set_exception_def SharedState_new_def)
qed

lemma reachable_fresh: "reachable s \<Longrightarrow> \<not> ss_ready s \<Longrightarrow> s = SharedState_new"
  by (drule reachable_cases) auto

lemma do_write_fresh:
  "\<not> ss_ready s \<Longrightarrow> fst (do_write w s) = Inr () \<and> ss_ready (snd (do_write w s))"
  by (cases w) (simp_all add: SharedState_set_value_def SharedState_set_exception_def)

lemma do_write_ready:
  "ss_ready s \<Longrightarrow> do_write w s = (Inl (Runtime_error ''Promise already satisfied''), s)"
  by (cases w) (simp_all add: SharedState_set_value_def SharedState_set_exception_def)

lemma ready_never_reverts: "ss_ready s \<Longrightarrow> ss_ready (snd (do_write w s))"
  by (simp add: do_write_ready)

lemma get_value_keeps_state: "snd (SharedState_get_value s) = s"
  by (simp add: SharedState_get_value_def split: option.splits)

lemma wait_keeps_state: "snd (SharedState_wait s) = s"
  by (simp add: SharedState_wait_def)

lemma call_at_same:
  "snd (f (cells h a)) = cells h a \<Longrightarrow> call_at a f h = (fst (f (cells h a)), h)"
  by (cases "f (cells h a)") (simp add: call_at_def)

lemma call_at_cells:
  "cells (snd (call_at a f h)) a = snd (f (cells h a))"
  by (simp add: call_at_def split: prod.splits)

lemma call_at_fst: "fst (call_at a f h) = fst (f (cells h a))"
  by (simp add: call_at_def split: prod.splits)

lemma MyFuture_get_at:
  "fu_state f = Some a \<Longrightarrow> MyFuture_get f h = (fst (SharedState_get_value (cells h a)), h)"
  by (simp add: MyFuture_get_def call_at_same get_value_keeps_state)

lemma MyFuture_is_ready_at:
  "fu_state f = Some a \<Longrightarrow> MyFuture_is_ready f h = ss_ready (cells h a)"
  by (simp add: MyFuture_is_ready_def SharedState_is_ready_def)

lemma MyPromise_move_assign_self: "MyPromise_move_assign i i ps = ps"
  by (simp add: MyPromise_move_assign_def)

subsection \<open>At most one write\<close>

text \<open>
  Claim C1. On a shared state that has not been written yet, take any two writes
  (\<open>set_value\<close> or \<open>set_exception\<close>, in any combination). The first returns normally. The
  second throws \<open>runtime_error("Promise already satisfied")\<close> and leaves the state as the
  first write left it, so \<open>get_value\<close> gives the same result before and after the second
  attempt. That result is fixed by the first write alone: the value \<open>v\<close> of \<open>set_value(v)\<close>,
  the exception \<open>e\<close> of \<open>set_exception(e)\<close> for a non-null \<open>e\<close>; for a null exception
  pointer nothing was stored and \<open>get_value\<close> throws the internal error.
\<close>

theorem first_write_wins:
  assumes "reachable s" and "\<not> ss_ready s"
  shows "fst (do_write w1 s) = Inr () \<and>
         do_write w2 (snd (do_write w1 s)) =
           (Inl (Runtime_error ''Promise already satisfied''), snd (do_write w1 s)) \<and>
         SharedState_get_value (snd (do_write w2 (snd (do_write w1 s)))) =
           SharedState_get_value (snd (do_write w1 s)) \<and>
         fst (SharedState_get_value (snd (do_write w2 (snd (do_write w1 s))))) =
           (case w1 of
              Set_value v \<Rightarrow> Some (Inr v)
            | Set_exception (Some e) \<Rightarrow> Some (Inl e)
            | Set_exception None \<Rightarrow>
                Some (Inl (Runtime_error
                  ''Internal error: shared state ready but no value or exception'')))"
proof -
  from assms have new: "s = SharedState_new" by (rule reachable_fresh)
  have first: "fst (do_write w1 s) = Inr ()" and rdy: "ss_ready (snd (do_write w1 s))"
    using do_write_fresh [OF assms(2)] by simp_all
  have second: "do_write w2 (snd (do_write w1 s)) =
      (Inl (Runtime_error ''Promise already satisfied''), snd (do_write w1 s))"
    using rdy by (rule do_write_ready)
  have seen: "fst (SharedState_get_value (snd (do_write w1 s))) =
      (case w1 of
         Set_value v \<Rightarrow> Some (Inr v)
       | Set_exception (Some e) \<Rightarrow> Some (Inl e)
       | Set_exception None \<Rightarrow>
           Some (Inl (Runtime_error
             ''Internal error: shared state ready but no value or exception'')))"
    unfolding new
    by (cases w1)
       (simp_all add: SharedState_set_value_def SharedState_set_exception_def
          SharedState_get_value_def SharedState_new_def split: option.splits)
  show ?thesis using first second seen by simp
qed

theorem first_write_wins_witness:
  "fst (do_write (Set_value (1::int)) (SharedState_new :: (int, unit) SharedState)) = Inr () \<and>
   fst (do_write (Set_value 2) (snd (do_write (Set_value (1::int)) (SharedState_new :: (int, unit) SharedState))))
     = Inl (Runtime_error ''Promise already satisfied'') \<and>
   fst (SharedState_get_value (snd (do_write (Set_value 2)
      (snd (do_write (Set_value (1::int)) (SharedState_new :: (int, unit) SharedState)))))) = Some (Inr 1)"
proof -
  have r: "reachable (SharedState_new :: (int, unit) SharedState)" by (rule reachable_new)
  have n: "\<not> ss_ready (SharedState_new :: (int, unit) SharedState)"
    by (simp add: SharedState_new_def)
  show ?thesis
    using first_write_wins [OF r n, of "Set_value 1" "Set_value 2"] by auto
qed

subsection \<open>The readiness invariant\<close>

text \<open>
  Readiness is never taken back, and a write other than \<open>set_exception(nullptr)\<close> keeps the
  invariant of the specification.
\<close>

lemma spec_ready_invariant_write:
  "spec_ready_invariant s \<Longrightarrow> reachable s \<Longrightarrow> w \<noteq> Set_exception None
     \<Longrightarrow> spec_ready_invariant (snd (do_write w s))"
  by (drule reachable_cases, cases w)
     (auto simp: spec_ready_invariant_def SharedState_set_value_def
        SharedState_set_exception_def SharedState_new_def)

text \<open>
  Claim C2. The claim says that in every state \<open>ready_\<close> holds if and only if exactly one of
  \<open>value_\<close> and \<open>exception_ptr_\<close> is populated. The comment in \<open>get_value\<close> states the same
  intent, but \<open>set_exception\<close> does not check its argument: on a new state,
  \<open>set_exception(nullptr)\<close> returns normally and leaves a state that is ready with neither
  field populated, so the invariant is false there.
\<close>

theorem null_exception_breaks_ready_invariant:
  "reachable (snd (SharedState_set_exception None (SharedState_new :: ('a, 'x) SharedState))) \<and>
   fst (SharedState_set_exception None (SharedState_new :: ('a, 'x) SharedState)) = Inr () \<and>
   \<not> spec_ready_invariant
        (snd (SharedState_set_exception None (SharedState_new :: ('a, 'x) SharedState)))"
proof -
  have "reachable (snd (do_write (Set_exception None) (SharedState_new :: ('a, 'x) SharedState)))"
    by (rule reachable_write) (rule reachable_new)
  then show ?thesis
    by (simp add: spec_ready_invariant_def SharedState_set_exception_def SharedState_new_def)
qed

subsection \<open>Abandoned promise\<close>

text \<open>
  What the destructor does to the data. Let a promise hold the state at address \<open>a\<close>, not
  yet ready, and let \<open>f\<close> be a future on the same state. If \<open>future_retrieved_\<close> is set,
  then \<open>get\<close> on \<open>f\<close> does not return on the heap before the destructor, and on the heap
  after it the state is ready, holds \<open>runtime_error("Broken promise")\<close>, and \<open>get\<close> on \<open>f\<close>
  throws that exception. If the flag is not set, the heap is unchanged.
\<close>

lemma MyPromise_destroy_effect:
  assumes "pr_state p = Some a" and "\<not> ss_ready (cells h a)" and "fu_state f = Some a"
  shows "(pr_future_retrieved p \<longrightarrow>
            fst (MyFuture_get f h) = None \<and>
            ss_ready (cells (MyPromise_destroy p h) a) \<and>
            ss_exception_ptr (cells (MyPromise_destroy p h) a) =
              Some (Runtime_error ''Broken promise'') \<and>
            MyFuture_get f (MyPromise_destroy p h) =
              (Some (Inl (Runtime_error ''Broken promise'')), MyPromise_destroy p h)) \<and>
         (\<not> pr_future_retrieved p \<longrightarrow> MyPromise_destroy p h = h)"
proof (intro conjI impI)
  assume fr: "pr_future_retrieved p"
  have d: "cells (MyPromise_destroy p h) a =
      (cells h a)\<lparr>ss_exception_ptr := Some (Runtime_error ''Broken promise''), ss_ready := True\<rparr>"
    using assms(1,2) fr
    by (simp add: MyPromise_destroy_def SharedState_is_ready_def call_at_cells
        SharedState_set_exception_def)
  show "fst (MyFuture_get f h) = None"
    using assms(2,3) by (simp add: MyFuture_get_at SharedState_get_value_def)
  show "ss_ready (cells (MyPromise_destroy p h) a)" by (simp add: d)
  show "ss_exception_ptr (cells (MyPromise_destroy p h) a) =
      Some (Runtime_error ''Broken promise'')" by (simp add: d)
  show "MyFuture_get f (MyPromise_destroy p h) =
      (Some (Inl (Runtime_error ''Broken promise'')), MyPromise_destroy p h)"
    using assms(3) by (simp add: MyFuture_get_at d SharedState_get_value_def)
next
  assume "\<not> pr_future_retrieved p"
  then show "MyPromise_destroy p h = h"
    using assms(1) by (simp add: MyPromise_destroy_def)
qed

text \<open>The same with the suspended threads.\<close>

lemma notify_one_store: "store (notify_one k a w) = store w"
  by (simp add: notify_one_def Let_def)

lemma get_value_cv_ready:
  "ss_ready (cells (store w) a) \<Longrightarrow>
   SharedState_get_value_cv t a w = (fst (SharedState_get_value (cells (store w) a)), w)"
  by (simp add: SharedState_get_value_cv_def call_at_same get_value_keeps_state
      SharedState_get_value_def split: option.splits)

lemma get_value_cv_blocks:
  "\<not> ss_ready (cells (store w) a) \<Longrightarrow>
   SharedState_get_value_cv t a w =
     (None, w\<lparr>cv_blocked := (cv_blocked w)(a := cv_blocked w a @ [t])\<rparr>)"
  by (simp add: SharedState_get_value_cv_def call_at_same get_value_keeps_state
      SharedState_get_value_def)

lemma destroy_cv_unfold:
  assumes "pr_state p = Some a" and "\<not> ss_ready (cells (store w) a)"
    and "pr_future_retrieved p"
  shows "MyPromise_destroy_cv k p w =
           notify_one k a (w\<lparr>store := MyPromise_destroy p (store w)\<rparr>)"
  using assms
  by (simp add: MyPromise_destroy_cv_def MyPromise_destroy_def SharedState_is_ready_def
      SharedState_set_exception_cv_def call_at_def SharedState_set_exception_def)

lemma set_value_cv_ready:
  "ss_ready (cells (store w) a) \<Longrightarrow>
   SharedState_set_value_cv k v a w = (Inl (Runtime_error ''Promise already satisfied''), w)"
  by (simp add: SharedState_set_value_cv_def call_at_def SharedState_set_value_def)

lemma set_exception_cv_ready:
  "ss_ready (cells (store w) a) \<Longrightarrow>
   SharedState_set_exception_cv k e a w = (Inl (Runtime_error ''Promise already satisfied''), w)"
  by (simp add: SharedState_set_exception_cv_def call_at_def SharedState_set_exception_def)

lemma one_promise_world_fresh:
  "cells (store one_promise_world) 0 = SharedState_new"
  "cv_blocked one_promise_world = (\<lambda>_. [])"
  "cv_unblocked one_promise_world = (\<lambda>_. [])"
  by (simp_all add: one_promise_world_def MyPromise_new_def make_shared_def empty_heap_def)

lemma one_reader_blocked:
  "MyFuture_get_cv t \<lparr>fu_state = Some 0\<rparr> one_promise_world =
     (None, one_promise_world\<lparr>cv_blocked := (\<lambda>_. [])(0 := [t])\<rparr>)"
  by (simp add: MyFuture_get_cv_def get_value_cv_blocks one_promise_world_fresh
      SharedState_new_def)

lemma two_readers_blocked:
  "MyFuture_get_cv t' \<lparr>fu_state = Some 0\<rparr>
       (snd (MyFuture_get_cv t \<lparr>fu_state = Some 0\<rparr> one_promise_world)) =
     (None, one_promise_world\<lparr>cv_blocked := (\<lambda>_. [])(0 := [t, t'])\<rparr>)"
  by (simp add: one_reader_blocked MyFuture_get_cv_def get_value_cv_blocks
      one_promise_world_fresh SharedState_new_def)

text \<open>
  Claim C3, as the code has it. Let a promise hold the state at address \<open>a\<close>, not yet ready,
  and let \<open>f\<close> be a future on the same state. A \<open>get\<close> called by a thread \<open>t\<close> before the
  promise is destroyed suspends \<open>t\<close>. If \<open>future_retrieved_\<close> is set, the destructor stores
  \<open>runtime_error("Broken promise")\<close>, sets \<open>ready_\<close> and unblocks one of the suspended
  threads (the one \<open>notify_one\<close> picks, whichever it is). After it, every new \<open>get\<close> on
  \<open>f\<close> throws that exception at once and leaves the world as it is; every unblocked thread
  \<open>u\<close> that repeats its test throws that exception; and when exactly one thread was
  suspended, it is unblocked, no thread stays suspended, and its pending \<open>get\<close> throws that
  exception. If \<open>future_retrieved_\<close> is not set, the destructor changes nothing, neither the
  heap nor the suspended threads.
\<close>

theorem destroy_wakes_one_reader:
  assumes "pr_state p = Some a" and "\<not> ss_ready (cells (store w) a)"
    and "fu_state f = Some a"
  shows "(pr_future_retrieved p \<longrightarrow>
            MyFuture_get_cv t f w =
              (None, w\<lparr>cv_blocked := (cv_blocked w)(a := cv_blocked w a @ [t])\<rparr>) \<and>
            store (MyPromise_destroy_cv k p w) = MyPromise_destroy p (store w) \<and>
            ss_ready (cells (store (MyPromise_destroy_cv k p w)) a) \<and>
            ss_exception_ptr (cells (store (MyPromise_destroy_cv k p w)) a) =
              Some (Runtime_error ''Broken promise'') \<and>
            MyFuture_get_cv t f (MyPromise_destroy_cv k p w) =
              (Some (Inl (Runtime_error ''Broken promise'')), MyPromise_destroy_cv k p w) \<and>
            (u \<in> set (cv_unblocked (MyPromise_destroy_cv k p w) a) \<longrightarrow>
               fst (SharedState_get_value_resume u a (MyPromise_destroy_cv k p w)) =
                 Some (Inl (Runtime_error ''Broken promise''))) \<and>
            (cv_blocked w a \<noteq> [] \<longrightarrow>
               cv_blocked w a ! (k mod length (cv_blocked w a))
                 \<in> set (cv_unblocked (MyPromise_destroy_cv k p w) a)) \<and>
            (cv_blocked w a = [u] \<longrightarrow>
               cv_blocked (MyPromise_destroy_cv k p w) a = [] \<and>
               fst (SharedState_get_value_resume u a (MyPromise_destroy_cv k p w)) =
                 Some (Inl (Runtime_error ''Broken promise'')))) \<and>
         (\<not> pr_future_retrieved p \<longrightarrow> MyPromise_destroy_cv k p w = w)"
proof (intro conjI impI)
  assume "\<not> pr_future_retrieved p"
  then show "MyPromise_destroy_cv k p w = w"
    using assms(1) by (simp add: MyPromise_destroy_cv_def)
next
  assume fr: "pr_future_retrieved p"
  let ?w = "MyPromise_destroy_cv k p w"
  let ?B = "Runtime_error ''Broken promise''"
  note seq = MyPromise_destroy_effect [OF assms(1,2,3), THEN conjunct1, rule_format, OF fr]
  have w': "?w = notify_one k a (w\<lparr>store := MyPromise_destroy p (store w)\<rparr>)"
    using assms(1,2) fr by (rule destroy_cv_unfold)
  show st: "store ?w = MyPromise_destroy p (store w)"
    by (simp add: w' notify_one_store)
  show rdy: "ss_ready (cells (store ?w) a)"
    and "ss_exception_ptr (cells (store ?w) a) = Some ?B"
    using seq by (simp_all add: st)
  have gv: "fst (SharedState_get_value (cells (store ?w) a)) = Some (Inl ?B)"
    using seq assms(3) by (simp add: st MyFuture_get_at)
  show "MyFuture_get_cv t f w =
      (None, w\<lparr>cv_blocked := (cv_blocked w)(a := cv_blocked w a @ [t])\<rparr>)"
    using assms(2,3) by (simp add: MyFuture_get_cv_def get_value_cv_blocks)
  show "MyFuture_get_cv t f ?w = (Some (Inl ?B), ?w)"
    using assms(3) rdy gv by (simp add: MyFuture_get_cv_def get_value_cv_ready)
  have resume: "fst (SharedState_get_value_resume v a ?w) = Some (Inl ?B)"
    if "v \<in> set (cv_unblocked ?w a)" for v
  proof -
    let ?r = "?w\<lparr>cv_unblocked := (cv_unblocked ?w)(a := remove1 v (cv_unblocked ?w a))\<rparr>"
    have "store ?r = store ?w" by simp
    with rdy gv have "fst (SharedState_get_value_cv v a ?r) = Some (Inl ?B)"
      by (simp add: get_value_cv_ready)
    with that show ?thesis by (simp add: SharedState_get_value_resume_def)
  qed
  show "fst (SharedState_get_value_resume u a ?w) = Some (Inl ?B)"
    if "u \<in> set (cv_unblocked ?w a)"
    using that by (rule resume)
  show "cv_blocked w a ! (k mod length (cv_blocked w a)) \<in> set (cv_unblocked ?w a)"
    if "cv_blocked w a \<noteq> []"
    using that by (simp add: w' notify_one_def Let_def)
  assume one: "cv_blocked w a = [u]"
  show "cv_blocked ?w a = []"
    by (simp add: w' notify_one_def Let_def one)
  have "u \<in> set (cv_unblocked ?w a)"
    by (simp add: w' notify_one_def Let_def one)
  then show "fst (SharedState_get_value_resume u a ?w) = Some (Inl ?B)"
    by (rule resume)
qed

theorem destroy_wakes_one_reader_witness:
  "MyFuture_get_cv 1 \<lparr>fu_state = Some 0\<rparr> (one_promise_world :: (nat, unit) world) =
     (None, one_promise_world\<lparr>cv_blocked := (\<lambda>_. [])(0 := [1])\<rparr>) \<and>
   cv_blocked (MyPromise_destroy_cv 0 \<lparr>pr_state = Some 0, pr_future_retrieved = True\<rparr>
       (snd (MyFuture_get_cv 1 \<lparr>fu_state = Some 0\<rparr> (one_promise_world :: (nat, unit) world)))) 0 = [] \<and>
   fst (SharedState_get_value_resume 1 0
       (MyPromise_destroy_cv 0 \<lparr>pr_state = Some 0, pr_future_retrieved = True\<rparr>
          (snd (MyFuture_get_cv 1 \<lparr>fu_state = Some 0\<rparr> (one_promise_world :: (nat, unit) world))))) =
     Some (Inl (Runtime_error ''Broken promise'')) \<and>
   fst (MyFuture_get_cv 2 \<lparr>fu_state = Some 0\<rparr>
       (MyPromise_destroy_cv 0 \<lparr>pr_state = Some 0, pr_future_retrieved = True\<rparr>
          (snd (MyFuture_get_cv 1 \<lparr>fu_state = Some 0\<rparr> (one_promise_world :: (nat, unit) world))))) =
     Some (Inl (Runtime_error ''Broken promise''))"
proof -
  let ?p = "\<lparr>pr_state = Some 0, pr_future_retrieved = True\<rparr>"
  let ?f = "\<lparr>fu_state = Some 0\<rparr>"
  let ?w = "snd (MyFuture_get_cv 1 ?f (one_promise_world :: (nat, unit) world))"
  have p: "pr_state ?p = Some 0" and f: "fu_state ?f = Some 0"
    and fr: "pr_future_retrieved ?p" by simp_all
  have n: "\<not> ss_ready (cells (store ?w) 0)"
    by (simp add: one_reader_blocked one_promise_world_fresh SharedState_new_def)
  have b: "cv_blocked ?w 0 = [1]"
    by (simp add: one_reader_blocked)
  from destroy_wakes_one_reader [OF p n f, where k = 0 and t = 2 and u = 1] fr b
  show ?thesis by (simp add: one_reader_blocked)
qed

text \<open>
  The claim as it is written, with every pending \<open>get\<close>, fails when two calls are pending,
  which the copyable \<open>MyFuture\<close> allows. Threads 1 and 2 call \<open>get\<close> on the future of a new
  promise and are suspended. The promise is destroyed: \<open>notify_one\<close> unblocks thread 1
  (choice 0) and thread 2 stays suspended; it cannot repeat its test, and a later write
  throws before it would notify and leaves thread 2 suspended. With choice 1 it is thread 1
  that stays suspended.
\<close>

theorem second_pending_reader_stays_blocked:
  "cv_blocked (snd (MyFuture_get_cv 2 \<lparr>fu_state = Some 0\<rparr>
       (snd (MyFuture_get_cv 1 \<lparr>fu_state = Some 0\<rparr> (one_promise_world :: (nat, unit) world))))) 0
     = [1, 2] \<and>
   cv_blocked (MyPromise_destroy_cv 0 \<lparr>pr_state = Some 0, pr_future_retrieved = True\<rparr>
       (snd (MyFuture_get_cv 2 \<lparr>fu_state = Some 0\<rparr>
          (snd (MyFuture_get_cv 1 \<lparr>fu_state = Some 0\<rparr> (one_promise_world :: (nat, unit) world)))))) 0
     = [2] \<and>
   cv_unblocked (MyPromise_destroy_cv 0 \<lparr>pr_state = Some 0, pr_future_retrieved = True\<rparr>
       (snd (MyFuture_get_cv 2 \<lparr>fu_state = Some 0\<rparr>
          (snd (MyFuture_get_cv 1 \<lparr>fu_state = Some 0\<rparr> (one_promise_world :: (nat, unit) world)))))) 0
     = [1] \<and>
   SharedState_get_value_resume 2 0
       (MyPromise_destroy_cv 0 \<lparr>pr_state = Some 0, pr_future_retrieved = True\<rparr>
          (snd (MyFuture_get_cv 2 \<lparr>fu_state = Some 0\<rparr>
             (snd (MyFuture_get_cv 1 \<lparr>fu_state = Some 0\<rparr> (one_promise_world :: (nat, unit) world))))))
     = (None,
        MyPromise_destroy_cv 0 \<lparr>pr_state = Some 0, pr_future_retrieved = True\<rparr>
          (snd (MyFuture_get_cv 2 \<lparr>fu_state = Some 0\<rparr>
             (snd (MyFuture_get_cv 1 \<lparr>fu_state = Some 0\<rparr> one_promise_world))))) \<and>
   SharedState_set_value_cv 0 7 0
       (MyPromise_destroy_cv 0 \<lparr>pr_state = Some 0, pr_future_retrieved = True\<rparr>
          (snd (MyFuture_get_cv 2 \<lparr>fu_state = Some 0\<rparr>
             (snd (MyFuture_get_cv 1 \<lparr>fu_state = Some 0\<rparr> (one_promise_world :: (nat, unit) world))))))
     = (Inl (Runtime_error ''Promise already satisfied''),
        MyPromise_destroy_cv 0 \<lparr>pr_state = Some 0, pr_future_retrieved = True\<rparr>
          (snd (MyFuture_get_cv 2 \<lparr>fu_state = Some 0\<rparr>
             (snd (MyFuture_get_cv 1 \<lparr>fu_state = Some 0\<rparr> one_promise_world))))) \<and>
   cv_blocked (MyPromise_destroy_cv 1 \<lparr>pr_state = Some 0, pr_future_retrieved = True\<rparr>
       (snd (MyFuture_get_cv 2 \<lparr>fu_state = Some 0\<rparr>
          (snd (MyFuture_get_cv 1 \<lparr>fu_state = Some 0\<rparr> (one_promise_world :: (nat, unit) world)))))) 0
     = [1]"
proof -
  let ?p = "\<lparr>pr_state = Some 0, pr_future_retrieved = True\<rparr>"
  let ?w2 = "one_promise_world\<lparr>cv_blocked := (\<lambda>_. [])(0 := [1, 2])\<rparr> :: (nat, unit) world"
  have w2: "snd (MyFuture_get_cv 2 \<lparr>fu_state = Some 0\<rparr>
      (snd (MyFuture_get_cv 1 \<lparr>fu_state = Some 0\<rparr> (one_promise_world :: (nat, unit) world)))) = ?w2"
    unfolding two_readers_blocked by (rule snd_conv)
  have n: "\<not> ss_ready (cells (store ?w2) 0)"
    by (simp add: one_promise_world_fresh SharedState_new_def)
  have bl: "cv_blocked ?w2 0 = [1, 2]" and un: "cv_unblocked ?w2 0 = []"
    by (simp_all add: one_promise_world_fresh)
  have d: "MyPromise_destroy_cv k ?p ?w2 =
      notify_one k 0 (?w2\<lparr>store := MyPromise_destroy ?p (store ?w2)\<rparr>)" for k
    using n by (intro destroy_cv_unfold) simp_all
  have b0: "cv_blocked (MyPromise_destroy_cv 0 ?p ?w2) 0 = [2]"
    and u0: "cv_unblocked (MyPromise_destroy_cv 0 ?p ?w2) 0 = [1]"
    and b1: "cv_blocked (MyPromise_destroy_cv 1 ?p ?w2) 0 = [1]"
    unfolding d by (simp_all add: notify_one_def Let_def one_promise_world_fresh)
  have r: "ss_ready (cells (store (MyPromise_destroy_cv 0 ?p ?w2)) 0)"
    unfolding d
    by (simp add: notify_one_store MyPromise_destroy_def SharedState_is_ready_def
        call_at_cells SharedState_set_exception_def one_promise_world_fresh SharedState_new_def)
  have "2 \<notin> set (cv_unblocked (MyPromise_destroy_cv 0 ?p ?w2) 0)"
    unfolding u0 by simp
  then have res: "SharedState_get_value_resume 2 0 (MyPromise_destroy_cv 0 ?p ?w2) =
      (None, MyPromise_destroy_cv 0 ?p ?w2)"
    by (simp only: SharedState_get_value_resume_def if_False)
  note wr = set_value_cv_ready [OF r, of 0 7]
  show ?thesis
    unfolding w2 by (intro conjI) (rule bl b0 u0 res wr b1)+
qed

subsection \<open>Propagation of the producer's exception\<close>

text \<open>
  Claim C4. If \<open>set_exception(e)\<close> with a non-null \<open>e\<close> returns normally on a promise, then
  \<open>get\<close> on a future bound to the same state throws exactly \<open>e\<close>, whatever exception \<open>e\<close>
  is, and leaves the heap unchanged; the same holds for \<open>get_value\<close> on the shared state
  itself.
\<close>

theorem exception_propagates_verbatim:
  assumes "fu_state f = pr_state p"
    and "fst (MyPromise_set_exception (Some e) p h) = Inr ()"
  shows "MyFuture_get f (snd (MyPromise_set_exception (Some e) p h)) =
           (Some (Inl e), snd (MyPromise_set_exception (Some e) p h)) \<and>
         (fst (SharedState_set_exception (Some e) s) = Inr () \<longrightarrow>
            SharedState_get_value (snd (SharedState_set_exception (Some e) s)) =
              (Some (Inl e), snd (SharedState_set_exception (Some e) s)))"
proof
  from assms(2) obtain a where a: "pr_state p = Some a"
    by (cases "pr_state p") (simp_all add: MyPromise_set_exception_def)
  with assms(2) have n: "\<not> ss_ready (cells h a)"
    by (auto simp: MyPromise_set_exception_def call_at_fst SharedState_set_exception_def
        split: if_splits)
  from a assms(1) have f: "fu_state f = Some a" by simp
  show "MyFuture_get f (snd (MyPromise_set_exception (Some e) p h)) =
      (Some (Inl e), snd (MyPromise_set_exception (Some e) p h))"
    using a n
    by (simp add: MyFuture_get_at [OF f] MyPromise_set_exception_def call_at_cells
        SharedState_set_exception_def SharedState_get_value_def)
next
  show "fst (SharedState_set_exception (Some e) s) = Inr () \<longrightarrow>
      SharedState_get_value (snd (SharedState_set_exception (Some e) s)) =
        (Some (Inl e), snd (SharedState_set_exception (Some e) s))"
    by (simp add: SharedState_set_exception_def SharedState_get_value_def)
qed

theorem exception_propagates_verbatim_witness:
  "fst (MyPromise_set_exception (Some (Runtime_error ''boom''))
          \<lparr>pr_state = Some 0, pr_future_retrieved = True\<rparr>
          (snd (MyPromise_new (empty_heap :: (nat, unit) heap)))) = Inr () \<and>
   fst (MyFuture_get \<lparr>fu_state = Some 0\<rparr>
          (snd (MyPromise_set_exception (Some (Runtime_error ''boom''))
             \<lparr>pr_state = Some 0, pr_future_retrieved = True\<rparr>
             (snd (MyPromise_new (empty_heap :: (nat, unit) heap)))))) =
     Some (Inl (Runtime_error ''boom''))"
proof -
  let ?h = "snd (MyPromise_new (empty_heap :: (nat, unit) heap))"
  let ?p = "\<lparr>pr_state = Some 0, pr_future_retrieved = True\<rparr>"
  let ?e = "Runtime_error ''boom'' :: unit exn"
  have f: "fu_state \<lparr>fu_state = Some 0\<rparr> = pr_state ?p" by simp
  have w: "fst (MyPromise_set_exception (Some ?e) ?p ?h) = Inr ()"
    by (simp add: MyPromise_set_exception_def call_at_fst SharedState_set_exception_def
        MyPromise_new_def make_shared_def empty_heap_def SharedState_new_def)
  from exception_propagates_verbatim [OF f w, where s = SharedState_new]
  have "MyFuture_get \<lparr>fu_state = Some 0\<rparr> (snd (MyPromise_set_exception (Some ?e) ?p ?h)) =
      (Some (Inl ?e), snd (MyPromise_set_exception (Some ?e) ?p ?h))"
    by (rule conjunct1)
  with w show ?thesis by simp
qed

subsection \<open>Issuing the future\<close>

text \<open>
  Claim C5. On a promise that holds a state and has not issued a future, \<open>get_future\<close>
  returns a future with the same state pointer and sets \<open>future_retrieved_\<close>; a second call
  on the resulting promise throws \<open>runtime_error("Future already retrieved or no state")\<close>.
  Whenever the flag is set the call throws that error and leaves the promise as it is, so
  every later call fails as well. A promise that was the source of a move construction or
  of a move assignment to another object throws the same error. A newly constructed promise
  is in the first case.
\<close>

theorem get_future_once:
  "(pr_state p = Some a \<and> \<not> pr_future_retrieved p \<longrightarrow>
      MyPromise_get_future p = (Inr \<lparr>fu_state = Some a\<rparr>, p\<lparr>pr_future_retrieved := True\<rparr>) \<and>
      MyPromise_get_future (snd (MyPromise_get_future p)) =
        (Inl (Runtime_error ''Future already retrieved or no state''),
         snd (MyPromise_get_future p))) \<and>
   (pr_future_retrieved p \<longrightarrow>
      MyPromise_get_future p = (Inl (Runtime_error ''Future already retrieved or no state''), p)) \<and>
   MyPromise_get_future (snd (MyPromise_move p)) =
     (Inl (Runtime_error ''Future already retrieved or no state''), snd (MyPromise_move p)) \<and>
   (this \<noteq> other \<longrightarrow>
      MyPromise_get_future (MyPromise_move_assign this other ps other) =
        (Inl (Runtime_error ''Future already retrieved or no state''),
         MyPromise_move_assign this other ps other)) \<and>
   fst (MyPromise_get_future (fst (MyPromise_new h))) =
     Inr \<lparr>fu_state = pr_state (fst (MyPromise_new h))\<rparr> \<and>
   pr_state (fst (MyPromise_new h)) = Some (next_addr h)"
  by (simp add: MyPromise_get_future_def MyFuture_new_def MyPromise_move_def
      MyPromise_move_assign_def Let_def MyPromise_new_def make_shared_def)

theorem get_future_once_witness:
  "MyPromise_get_future \<lparr>pr_state = Some 0, pr_future_retrieved = False\<rparr> =
     (Inr \<lparr>fu_state = Some 0\<rparr>, \<lparr>pr_state = Some 0, pr_future_retrieved = True\<rparr>) \<and>
   MyPromise_get_future \<lparr>pr_state = Some 0, pr_future_retrieved = True\<rparr> =
     (Inl (Runtime_error ''Future already retrieved or no state''),
      \<lparr>pr_state = Some 0, pr_future_retrieved = True\<rparr>)"
  using get_future_once [where p = "\<lparr>pr_state = Some 0, pr_future_retrieved = False\<rparr>"
      and a = 0 and this = 0 and other = 1 and ps = "\<lambda>_. \<lparr>pr_state = None, pr_future_retrieved = True\<rparr>"
      and h = "empty_heap :: (nat, unit) heap"]
    get_future_once [where p = "\<lparr>pr_state = Some 0, pr_future_retrieved = True\<rparr>"
      and a = 0 and this = 0 and other = 1 and ps = "\<lambda>_. \<lparr>pr_state = None, pr_future_retrieved = True\<rparr>"
      and h = "empty_heap :: (nat, unit) heap"]
  by auto

subsection \<open>Moved-from promises\<close>

text \<open>
  Claim C6. After move construction from \<open>p\<close>, and after move assignment from the object
  \<open>other\<close> to a different object \<open>this\<close>, the source holds no state: \<open>set_value\<close> and
  \<open>set_exception\<close> on it throw \<open>runtime_error("Promise has no state")\<close> and leave the heap
  unchanged, and \<open>get_future\<close> throws the error it has for a missing state,
  \<open>runtime_error("Future already retrieved or no state")\<close>. The destination is equal to the
  original (same state pointer, same flag), so every operation on it gives what it would
  have given on the original. (Assigning an object to itself is skipped by the source, see
  \<open>MyPromise_move_assign_self\<close>.)
\<close>

theorem moved_from_promise_is_inert:
  "(case MyPromise_move p of
      (dst, src) \<Rightarrow>
        MyPromise_set_value v src h = (Inl (Runtime_error ''Promise has no state''), h) \<and>
        MyPromise_set_exception e src h = (Inl (Runtime_error ''Promise has no state''), h) \<and>
        MyPromise_get_future src =
          (Inl (Runtime_error ''Future already retrieved or no state''), src) \<and>
        dst = p \<and>
        MyPromise_set_value v dst h = MyPromise_set_value v p h \<and>
        MyPromise_set_exception e dst h = MyPromise_set_exception e p h \<and>
        MyPromise_get_future dst = MyPromise_get_future p \<and>
        MyPromise_destroy dst h = MyPromise_destroy p h) \<and>
   (this \<noteq> other \<longrightarrow>
      (let ps' = MyPromise_move_assign this other ps in
        MyPromise_set_value v (ps' other) h = (Inl (Runtime_error ''Promise has no state''), h) \<and>
        MyPromise_set_exception e (ps' other) h =
          (Inl (Runtime_error ''Promise has no state''), h) \<and>
        MyPromise_get_future (ps' other) =
          (Inl (Runtime_error ''Future already retrieved or no state''), ps' other) \<and>
        ps' this = ps other \<and>
        MyPromise_set_value v (ps' this) h = MyPromise_set_value v (ps other) h \<and>
        MyPromise_set_exception e (ps' this) h = MyPromise_set_exception e (ps other) h \<and>
        MyPromise_get_future (ps' this) = MyPromise_get_future (ps other) \<and>
        MyPromise_destroy (ps' this) h = MyPromise_destroy (ps other) h))"
proof -
  have ctor: "MyPromise_move p = (p, \<lparr>pr_state = None, pr_future_retrieved = True\<rparr>)"
    by (simp add: MyPromise_move_def)
  have src: "MyPromise_move_assign this other ps other =
      \<lparr>pr_state = None, pr_future_retrieved = True\<rparr>" if "this \<noteq> other"
    using that by (simp add: MyPromise_move_assign_def Let_def)
  have dst: "MyPromise_move_assign this other ps this = ps other" if "this \<noteq> other"
    using that by (simp add: MyPromise_move_assign_def Let_def)
  have inert:
    "MyPromise_set_value v \<lparr>pr_state = None, pr_future_retrieved = True\<rparr> h =
       (Inl (Runtime_error ''Promise has no state''), h)"
    "MyPromise_set_exception e \<lparr>pr_state = None, pr_future_retrieved = True\<rparr> h =
       (Inl (Runtime_error ''Promise has no state''), h)"
    "MyPromise_get_future \<lparr>pr_state = None, pr_future_retrieved = True\<rparr> =
       (Inl (Runtime_error ''Future already retrieved or no state''),
        \<lparr>pr_state = None, pr_future_retrieved = True\<rparr>)"
    by (simp_all add: MyPromise_set_value_def MyPromise_set_exception_def
        MyPromise_get_future_def)
  show ?thesis
    by (simp add: ctor src dst inert Let_def)
qed

theorem moved_from_promise_is_inert_witness:
  "(let ps' = MyPromise_move_assign 0 1
        (\<lambda>i. if i = 1 then \<lparr>pr_state = Some 0, pr_future_retrieved = True\<rparr>
              else \<lparr>pr_state = Some 1, pr_future_retrieved = False\<rparr>)
    in MyPromise_set_value (5::nat) (ps' 1) (empty_heap :: (nat, unit) heap) =
         (Inl (Runtime_error ''Promise has no state''), empty_heap) \<and>
       MyPromise_get_future (ps' 1) =
         (Inl (Runtime_error ''Future already retrieved or no state''), ps' 1) \<and>
       ps' 0 = \<lparr>pr_state = Some 0, pr_future_retrieved = True\<rparr>)"
  using moved_from_promise_is_inert [where v = "5::nat"
      and p = "\<lparr>pr_state = Some 0, pr_future_retrieved = True\<rparr>" and e = None and h = "empty_heap :: (nat, unit) heap"
      and this = 0 and other = 1 and ps = "\<lambda>i. if i = 1 then \<lparr>pr_state = Some 0, pr_future_retrieved = True\<rparr>
              else \<lparr>pr_state = Some 1, pr_future_retrieved = False\<rparr>"]
  by (auto simp: Let_def)

subsection \<open>Reading twice\<close>

text \<open>
  Claim C7. Let a promise and a future share a state that has not been written. Then
  \<open>set_value(v)\<close> returns normally, \<open>get\<close> returns \<open>v\<close> and leaves the heap unchanged, the
  future is still ready, and a second \<open>get\<close> returns \<open>v\<close> again.
\<close>

theorem get_twice_returns_same_value:
  assumes "pr_state p = Some a" and "fu_state f = Some a"
    and "reachable (cells h a)" and "\<not> ss_ready (cells h a)"
  shows "(case MyPromise_set_value v p h of
            (w, h1) \<Rightarrow>
              w = Inr () \<and>
              (case MyFuture_get f h1 of
                 (g1, h2) \<Rightarrow>
                   g1 = Some (Inr v) \<and> h2 = h1 \<and>
                   MyFuture_is_ready f h2 \<and>
                   MyFuture_get f h2 = (Some (Inr v), h2)))"
proof -
  from assms(3,4) have new: "cells h a = SharedState_new" by (rule reachable_fresh)
  obtain w h1 where w: "MyPromise_set_value v p h = (w, h1)" by (cases "MyPromise_set_value v p h")
  from w assms(1) have "w = Inr ()"
    and c: "cells h1 a = \<lparr>ss_value = Some v, ss_exception_ptr = None, ss_ready = True\<rparr>"
    by (auto simp: MyPromise_set_value_def call_at_def SharedState_set_value_def new
        SharedState_new_def split: prod.splits)
  moreover have "MyFuture_get f h1 = (Some (Inr v), h1)"
    using assms(2) by (simp add: MyFuture_get_at c SharedState_get_value_def)
  moreover have "MyFuture_is_ready f h1"
    using assms(2) by (simp add: MyFuture_is_ready_at c)
  ultimately show ?thesis by (simp add: w)
qed

theorem get_twice_returns_same_value_witness:
  "(case MyPromise_new (empty_heap :: (nat, unit) heap) of
      (p, h) \<Rightarrow>
        (case MyPromise_get_future p of
           (rf, p') \<Rightarrow>
             rf = Inr \<lparr>fu_state = Some 0\<rparr> \<and>
             (case MyPromise_set_value 42 p' h of
                (w, h1) \<Rightarrow>
                  w = Inr () \<and>
                  MyFuture_get \<lparr>fu_state = Some 0\<rparr> h1 = (Some (Inr 42), h1) \<and>
                  MyFuture_get \<lparr>fu_state = Some 0\<rparr> (snd (MyFuture_get \<lparr>fu_state = Some 0\<rparr> h1)) =
                    (Some (Inr 42), h1))))"
proof -
  let ?h = "snd (MyPromise_new (empty_heap :: (nat, unit) heap))"
  let ?p = "\<lparr>pr_state = Some 0, pr_future_retrieved = True\<rparr>"
  have c: "cells ?h 0 = SharedState_new"
    by (simp add: MyPromise_new_def make_shared_def empty_heap_def)
  have r: "reachable (cells ?h 0)" unfolding c by (rule reachable_new)
  have n: "\<not> ss_ready (cells ?h 0)" unfolding c by (simp add: SharedState_new_def)
  have "pr_state ?p = Some 0" and "fu_state \<lparr>fu_state = Some 0\<rparr> = Some 0" by simp_all
  from get_twice_returns_same_value [OF this r n, of 42]
  show ?thesis
    by (auto simp: MyPromise_new_def make_shared_def empty_heap_def MyPromise_get_future_def
        MyFuture_new_def split: prod.splits)
qed

subsection \<open>The defensive branch\<close>

text \<open>
  Claim C8. In a state that is ready while \<open>value_\<close> is empty and \<open>exception_ptr_\<close> is null,
  \<open>get_value\<close>, and \<open>get\<close> on a future bound to that state, throw
  \<open>runtime_error("Internal error: shared state ready but no value or exception")\<close>.
\<close>

theorem ready_without_outcome_fails:
  assumes "ss_ready s" and "ss_value s = None" and "ss_exception_ptr s = None"
  shows "SharedState_get_value s =
           (Some (Inl (Runtime_error
              ''Internal error: shared state ready but no value or exception'')), s) \<and>
         (fu_state f = Some a \<and> cells h a = s \<longrightarrow>
            MyFuture_get f h =
              (Some (Inl (Runtime_error
                 ''Internal error: shared state ready but no value or exception'')), h))"
  using assms by (auto simp: MyFuture_get_at SharedState_get_value_def)

theorem ready_without_outcome_fails_witness:
  "SharedState_get_value \<lparr>ss_value = (None :: nat option),
       ss_exception_ptr = (None :: unit exception_ptr), ss_ready = True\<rparr> =
     (Some (Inl (Runtime_error
        ''Internal error: shared state ready but no value or exception'')),
      \<lparr>ss_value = None, ss_exception_ptr = None, ss_ready = True\<rparr>)"
  using ready_without_outcome_fails
    [of "\<lparr>ss_value = (None :: nat option),
       ss_exception_ptr = (None :: unit exception_ptr), ss_ready = True\<rparr>"]
  by simp

text \<open>
  Claim C9. \<open>set_exception(nullptr)\<close> on a new state returns normally and leaves the state
  ready with \<open>value_\<close> empty and \<open>exception_ptr_\<close> null; \<open>get_value\<close> then throws the internal
  error. The same happens through the handles: construct a promise, take its future, call
  \<open>set_exception(nullptr)\<close> on the promise; the future is ready and \<open>get\<close> throws the
  internal error.
\<close>

theorem null_exception_reaches_defensive_branch:
  "SharedState_set_exception None (SharedState_new :: ('a, 'x) SharedState) =
     (Inr (), \<lparr>ss_value = None, ss_exception_ptr = None, ss_ready = True\<rparr>) \<and>
   SharedState_get_value
       (\<lparr>ss_value = None, ss_exception_ptr = None, ss_ready = True\<rparr> :: ('a, 'x) SharedState) =
     (Some (Inl (Runtime_error
        ''Internal error: shared state ready but no value or exception'')),
      \<lparr>ss_value = None, ss_exception_ptr = None, ss_ready = True\<rparr>) \<and>
   (case MyPromise_new (h :: ('a, 'x) heap) of
      (p, h0) \<Rightarrow>
        (case MyPromise_get_future p of
           (rf, p') \<Rightarrow>
             rf = Inr \<lparr>fu_state = pr_state p\<rparr> \<and>
             (case MyPromise_set_exception None p' h0 of
                (w, h1) \<Rightarrow>
                  w = Inr () \<and>
                  MyFuture_is_ready \<lparr>fu_state = pr_state p\<rparr> h1 \<and>
                  fst (MyFuture_get \<lparr>fu_state = pr_state p\<rparr> h1) =
                    Some (Inl (Runtime_error
                      ''Internal error: shared state ready but no value or exception'')))))"
  by (simp add: SharedState_set_exception_def SharedState_get_value_def SharedState_new_def
      MyPromise_new_def make_shared_def MyPromise_get_future_def MyFuture_new_def
      MyPromise_set_exception_def call_at_def MyFuture_get_def MyFuture_is_ready_def
      SharedState_is_ready_def)

subsection \<open>A future without state\<close>

text \<open>
  Claim C10. On a future whose state pointer is null, \<open>is_ready\<close> returns \<open>false\<close>, while
  \<open>get\<close> and \<open>wait\<close> throw \<open>runtime_error("Future has no associated state")\<close>.
\<close>

theorem empty_future_is_ready_returns_false:
  "\<not> MyFuture_is_ready (MyFuture_new None) h \<and>
   MyFuture_get (MyFuture_new None) h =
     (Some (Inl (Runtime_error ''Future has no associated state'')), h) \<and>
   MyFuture_wait (MyFuture_new None) h =
     (Some (Inl (Runtime_error ''Future has no associated state'')), h) \<and>
   \<not> MyFuture_valid (MyFuture_new None)"
  by (simp add: MyFuture_is_ready_def MyFuture_get_def MyFuture_wait_def MyFuture_new_def
      MyFuture_valid_def)

end
